theory Spec2Isabelle
  imports Main
begin

section \<open>Data model\<close>

text \<open>
  Python strings are sequences of Unicode code points; a character is its code point.
  \<open>str\<close> turns an ASCII literal into such a string.
\<close>

type_synonym pystr = "nat list"

definition str :: "string \<Rightarrow> pystr" where
  "str cs = map of_char cs"

text \<open>
  A Python dict keeps insertion order and has one item per key: an association list,
  read with \<open>map_of\<close>.
\<close>

type_synonym ('k, 'v) dict = "('k \<times> 'v) list"

datatype error =
    EntryNotFound
  | KeyError
  | IndexError
  | AssertionError
  | RuntimeError

type_synonym EntryId = int
type_synonym DefinitionId = int

text \<open>
  Modelled from the spec: the module \<open>types\<close> (\<open>EntryRef\<close>, \<open>EntryDefinition\<close>,
  \<open>DictionaryEntry\<close>, \<open>SELF_REFERENCE\<close>) is imported by \<open>note.py\<close> and not part of
  the sources at hand. The records carry the fields \<open>note.py\<close> reads; the field
  \<open>id\<close> is written \<open>ref_id\<close>, \<open>entry_id\<close>, \<open>wc_id\<close>, and the text
  \<open>definition\<close> of a definition \<open>definition_text\<close>, the text \<open>entry\<close> of an entry
  \<open>entry_text\<close>. A category is a path
  of names (\<open>note.py\<close> iterates \<open>c for cat in defn.categories for c in cat\<close>);
  \<open>super_entry\<close> is only ever tested for \<open>None\<close>.
\<close>

record EntryRef =
  ref_id :: EntryId
  ref_definition :: "DefinitionId option"

datatype component_ref = SELF_REFERENCE | Ref EntryRef

record EntryDefinition =
  definition_text :: pystr
  categories :: "pystr list list"
  super_entry :: "pystr option"
  components :: "component_ref list option"
  classifiers :: "EntryRef list option"
  image_url :: "pystr option"

record DictionaryEntry =
  entry_id :: EntryId
  entry_text :: pystr
  pronounciations :: "(pystr, pystr) dict"
  sound_url :: "pystr option"
  definitions :: "(DefinitionId, EntryDefinition) dict"
  first_definition :: DefinitionId

text \<open>
  The dictionary fetcher is an external collaborator: its two operations are parameters
  of the model, and either may raise.
\<close>

record Fetcher =
  get_entry :: "EntryId \<Rightarrow> error + DictionaryEntry"
  get_super_entry :: "DictionaryEntry \<Rightarrow> DefinitionId \<Rightarrow> error + DictionaryEntry"

record WordComponent =
  wc_id :: EntryId
  wc_definition :: DefinitionId
  wc_entry :: DictionaryEntry
  wc_level :: int

section \<open>Component graph builder\<close>

text \<open>
  A generator is modelled by what its consumer sees: the components yielded so far, the
  shared \<open>visited\<close> set as the generator left it, and the exception that ended it, if
  any. The recursion of \<open>_build_component\<close> and \<open>_build_components\<close> is bounded by
  fuel; \<open>None\<close> means the fuel ran out. \<open>build_loop_n\<close> is the \<open>for\<close> loop of
  \<open>_build_components\<close>.
\<close>

type_synonym gen = "WordComponent list \<times> EntryRef set \<times> error option"

text \<open>
  The head of \<open>_build_component\<close>: the effective definition id and the key under
  which the component is recorded in \<open>visited\<close>.
\<close>

definition effective_definition :: "EntryRef \<Rightarrow> DictionaryEntry \<Rightarrow> DefinitionId" where
  "effective_definition ref component =
     (case ref_definition ref of None \<Rightarrow> first_definition component | Some d \<Rightarrow> d)"

definition comp_ref_of :: "EntryRef \<Rightarrow> DictionaryEntry \<Rightarrow> EntryRef" where
  "comp_ref_of ref component =
     \<lparr>ref_id = entry_id component, ref_definition = Some (effective_definition ref component)\<rparr>"

text \<open>
  \<open>component.definitions[defn].super_entry\<close> raises \<open>KeyError\<close> for an unknown
  definition id; a merged definition is resolved by the fetcher.
\<close>

definition resolve_comp_entry ::
    "Fetcher \<Rightarrow> DictionaryEntry \<Rightarrow> DefinitionId \<Rightarrow> error + DictionaryEntry" where
  "resolve_comp_entry F component defn =
     (case map_of (definitions component) defn of
        None \<Rightarrow> Inl KeyError
      | Some d \<Rightarrow>
         (if super_entry d \<noteq> None then get_super_entry F component defn
          else Inr component))"

text \<open>
  The head of \<open>_build_components\<close>: the generator expression over the definitions and
  \<open>next\<close> on it; \<open>None\<close> is \<open>StopIteration\<close>.
\<close>

definition select_comp_defn :: "DictionaryEntry \<Rightarrow> EntryDefinition option" where
  "select_comp_defn entry =
     (case filter (\<lambda>defn. components defn \<noteq> None \<and> super_entry defn = None)
             (map snd (definitions entry)) of
        [] \<Rightarrow> None
      | comp_defn # _ \<Rightarrow> Some comp_defn)"

definition resolve_self :: "DictionaryEntry \<Rightarrow> component_ref \<Rightarrow> EntryRef" where
  "resolve_self entry rel_component =
     (case rel_component of
        SELF_REFERENCE \<Rightarrow> \<lparr>ref_id = entry_id entry, ref_definition = None\<rparr>
      | Ref r \<Rightarrow> r)"

definition emit :: "WordComponent \<Rightarrow> gen option \<Rightarrow> gen option" where
  "emit wc rest =
     (case rest of None \<Rightarrow> None | Some (out, vis, err) \<Rightarrow> Some (wc # out, vis, err))"

definition yield_from :: "gen \<Rightarrow> (EntryRef set \<Rightarrow> gen option) \<Rightarrow> gen option" where
  "yield_from g k =
     (case g of
        (out, vis, Some e) \<Rightarrow> Some (out, vis, Some e)
      | (out, vis, None) \<Rightarrow>
         (case k vis of
            None \<Rightarrow> None
          | Some (out', vis', err) \<Rightarrow> Some (out @ out', vis', err)))"

fun build_component_n ::
    "nat \<Rightarrow> Fetcher \<Rightarrow> EntryRef \<Rightarrow> DictionaryEntry \<Rightarrow> EntryRef set \<Rightarrow> int \<Rightarrow> bool \<Rightarrow> gen option"
  and build_components_n ::
    "nat \<Rightarrow> Fetcher \<Rightarrow> DictionaryEntry \<Rightarrow> EntryRef set \<Rightarrow> int \<Rightarrow> gen option"
  and build_loop_n ::
    "nat \<Rightarrow> Fetcher \<Rightarrow> DictionaryEntry \<Rightarrow> component_ref list \<Rightarrow> EntryRef set \<Rightarrow> int \<Rightarrow> gen option"
where
  "build_component_n n F ref component visited level emit_subcomponents =
    (if comp_ref_of ref component \<in> visited then Some ([], visited, None)
     else case resolve_comp_entry F component (effective_definition ref component) of
        Inl e \<Rightarrow> Some ([], visited, Some e)
      | Inr comp_entry \<Rightarrow>
         emit \<lparr>wc_id = entry_id component, wc_definition = effective_definition ref component,
               wc_entry = comp_entry, wc_level = level\<rparr>
           (if emit_subcomponents
            then build_components_n n F comp_entry
                   (insert (comp_ref_of ref component) visited) (level + 1)
            else Some ([], insert (comp_ref_of ref component) visited, None)))"
| "build_components_n 0 F entry visited level = None"
| "build_components_n (Suc n) F entry visited level =
    (case select_comp_defn entry of
       None \<Rightarrow> Some ([], visited, None)
     | Some comp_defn \<Rightarrow>
        (case components comp_defn of
           None \<Rightarrow> Some ([], visited, Some AssertionError)
         | Some rels \<Rightarrow> build_loop_n n F entry rels visited level))"
| "build_loop_n n F entry [] visited level = Some ([], visited, None)"
| "build_loop_n n F entry (rel_component # rest) visited level =
    (case get_entry F (ref_id (resolve_self entry rel_component)) of
       Inl e \<Rightarrow> Some ([], visited, Some e)
     | Inr component \<Rightarrow>
        (case build_component_n n F (resolve_self entry rel_component) component visited level
                (ref_id (resolve_self entry rel_component) \<noteq> entry_id entry) of
           None \<Rightarrow> None
         | Some g \<Rightarrow> yield_from g (\<lambda>vis. build_loop_n n F entry rest vis level)))"


text \<open>
  The public entry points: \<open>visited\<close> defaults to a fresh empty set, the level is 0.
\<close>

definition visited_or_new :: "EntryRef set option \<Rightarrow> EntryRef set" where
  "visited_or_new visited = (case visited of None \<Rightarrow> {} | Some v \<Rightarrow> v)"


definition build_components ::
    "nat \<Rightarrow> Fetcher \<Rightarrow> DictionaryEntry \<Rightarrow> EntryRef set option \<Rightarrow> gen option" where
  "build_components n F entry visited =
     build_components_n n F entry (visited_or_new visited) 0"

text \<open>
  The key \<open>(entry_id, definition_id)\<close> of an emitted component, and the keys a
  traversal can ever record: the definitions of the entries the fetcher can return.
\<close>

definition wc_ref :: "WordComponent \<Rightarrow> EntryRef" where
  "wc_ref c = \<lparr>ref_id = wc_id c, ref_definition = Some (wc_definition c)\<rparr>"



definition gen_ok :: "EntryRef set \<Rightarrow> EntryRef set \<Rightarrow> gen \<Rightarrow> bool" where
  "gen_ok X visited g =
     (case g of (out, vis, err) \<Rightarrow>
        vis = visited \<union> wc_ref ` set out \<and> distinct (map wc_ref out) \<and>
        (\<forall>c \<in> set out. wc_ref c \<notin> visited \<and> wc_ref c \<in> X))"

text \<open>
  The selection rule as the specification words it: the first definition, in stored
  order, with a non-empty component list that is not merged.
\<close>

definition spec_select_comp_defn :: "DictionaryEntry \<Rightarrow> EntryDefinition option" where
  "spec_select_comp_defn entry =
     (case filter (\<lambda>defn. components defn \<noteq> None \<and> components defn \<noteq> Some [] \<and>
                          super_entry defn = None)
             (map snd (definitions entry)) of
        [] \<Rightarrow> None
      | comp_defn # _ \<Rightarrow> Some comp_defn)"

section \<open>Strings\<close>

text \<open>
  \<open>s.replace(old, new)\<close> for one-character \<open>old\<close> and \<open>new\<close>, \<open>html.escape\<close>
  (with its default \<open>quote=True\<close>), \<open>sep.join\<close> and \<open>s.startswith\<close>.
\<close>

definition replace_char :: "nat \<Rightarrow> nat \<Rightarrow> pystr \<Rightarrow> pystr" where
  "replace_char old new s = map (\<lambda>c. if c = old then new else c) s"

definition html_escape :: "pystr \<Rightarrow> pystr" where
  "html_escape s =
     concat (map (\<lambda>c.
        if c = 38 then str ''&amp;''
        else if c = 60 then str ''&lt;''
        else if c = 62 then str ''&gt;''
        else if c = 34 then str ''&quot;''
        else if c = 39 then str ''&#x27;''
        else [c]) s)"

fun join :: "pystr \<Rightarrow> pystr list \<Rightarrow> pystr" where
  "join sep [] = []"
| "join sep [x] = x"
| "join sep (x # y # ys) = x @ sep @ join sep (y # ys)"

definition startswith :: "pystr \<Rightarrow> pystr \<Rightarrow> bool" where
  "startswith s pre = (take (length pre) s = pre)"

definition join_nonempty_strings :: "pystr list \<Rightarrow> pystr \<Rightarrow> pystr" where
  "join_nonempty_strings strs sep = join sep (filter (\<lambda>s. s \<noteq> []) strs)"

text \<open>A comprehension or \<open>map\<close> whose function may raise stops at the first exception.\<close>

fun map_result :: "('a \<Rightarrow> error + 'b) \<Rightarrow> 'a list \<Rightarrow> error + 'b list" where
  "map_result f [] = Inr []"
| "map_result f (x # xs) =
     (case f x of
        Inl e \<Rightarrow> Inl e
      | Inr y \<Rightarrow> (case map_result f xs of Inl e \<Rightarrow> Inl e | Inr ys \<Rightarrow> Inr (y # ys)))"

section \<open>The note formatter\<close>

text \<open>
  The state of a \<open>NoteFormatter\<close>; \<open>media\<close> is its private \<open>_media\<close> dict. A method
  that touches the state returns its result, or the exception it raised, together with
  the formatter as the call left it.
\<close>

record NoteFormatter =
  fetcher :: Fetcher
  pronounciation_type :: pystr
  media :: "(pystr, pystr) dict"

record WordNote =
  note_ref :: EntryRef
  word :: pystr
  note_definition :: pystr
  word_extra :: pystr
  word_media :: "(pystr, pystr) dict"


definition new_formatter :: "Fetcher \<Rightarrow> pystr option \<Rightarrow> NoteFormatter" where
  "new_formatter F pt =
     \<lparr>fetcher = F,
      pronounciation_type = (case pt of None \<Rightarrow> str ''Paiboon'' | Some t \<Rightarrow> t),
      media = []\<rparr>"

definition use_media :: "NoteFormatter \<Rightarrow> pystr \<Rightarrow> (error + pystr) \<times> NoteFormatter" where
  "use_media self path =
     (let name = replace_char 47 95 path in
      case map_of (media self) name of
        Some p \<Rightarrow> if p = path then (Inr name, self) else (Inl AssertionError, self)
      | None \<Rightarrow> (Inr name, self\<lparr>media := media self @ [(name, path)]\<rparr>))"


definition is_suitable_definition :: "DictionaryEntry \<Rightarrow> EntryDefinition \<Rightarrow> bool" where
  "is_suitable_definition unused_entry defn =
     (if super_entry defn \<noteq> None then False
      else if str ''The English Alphabet'' \<in> set (concat (categories defn)) then False
      else True)"

definition suitable_definitions :: "DictionaryEntry \<Rightarrow> error + DefinitionId list" where
  "suitable_definitions entry =
     (let defns = map fst (filter (\<lambda>(i, defn). is_suitable_definition entry defn)
                             (definitions entry))
      in if length defns = 0 then Inl RuntimeError else Inr defns)"

definition format_pronounciation :: "NoteFormatter \<Rightarrow> DictionaryEntry \<Rightarrow> error + pystr" where
  "format_pronounciation self entry =
     (case map_of (pronounciations entry) (pronounciation_type self) of
        None \<Rightarrow> Inl KeyError
      | Some p \<Rightarrow> Inr (html_escape (replace_char 32 45 p)))"

definition format_inline_word :: "NoteFormatter \<Rightarrow> DictionaryEntry \<Rightarrow> error + pystr" where
  "format_inline_word self entry =
     (case format_pronounciation self entry of
        Inl e \<Rightarrow> Inl e
      | Inr pronounciation \<Rightarrow>
         Inr (str ''<ruby>'' @ html_escape (entry_text entry) @ str ''<rt>'' @ pronounciation
              @ str ''</rt></ruby>''))"

definition format_word_field ::
    "NoteFormatter \<Rightarrow> DictionaryEntry \<Rightarrow> (error + pystr) \<times> NoteFormatter" where
  "format_word_field self entry =
     (case format_pronounciation self entry of
        Inl e \<Rightarrow> (Inl e, self)
      | Inr pronounciation \<Rightarrow>
         (let word_str = html_escape (entry_text entry) @ str ''['' @ pronounciation @ str '']''
          in case sound_url entry of
               None \<Rightarrow> (Inr word_str, self)
             | Some url \<Rightarrow>
                (case use_media self url of
                   (Inl e, self') \<Rightarrow> (Inl e, self')
                 | (Inr sound_file, self') \<Rightarrow>
                    (Inr (word_str @ str '' [sound:'' @ sound_file @ str '']''), self'))))"

definition format_definition :: "DictionaryEntry \<Rightarrow> DefinitionId option \<Rightarrow> error + pystr" where
  "format_definition entry defn =
     (case map_of (definitions entry)
             (case defn of None \<Rightarrow> first_definition entry | Some d \<Rightarrow> d) of
        None \<Rightarrow> Inl KeyError
      | Some d \<Rightarrow> Inr (html_escape (definition_text d)))"

definition format_definition_field :: "DictionaryEntry \<Rightarrow> error + pystr" where
  "format_definition_field entry =
     (case suitable_definitions entry of
        Inl e \<Rightarrow> Inl e
      | Inr ids \<Rightarrow>
         (case map_result (\<lambda>i. format_definition entry (Some i)) ids of
            Inl e \<Rightarrow> Inl e
          | Inr defn_strs \<Rightarrow> Inr (join (str ''<br>'') defn_strs)))"

definition format_component :: "NoteFormatter \<Rightarrow> WordComponent \<Rightarrow> error + pystr" where
  "format_component self component =
     (case format_inline_word self (wc_entry component) of
        Inl e \<Rightarrow> Inl e
      | Inr component_word \<Rightarrow>
         (case format_definition (wc_entry component) (Some (wc_definition component)) of
            Inl e \<Rightarrow> Inl e
          | Inr component_defn \<Rightarrow>
             Inr (concat (replicate (nat (2 * wc_level component)) (str ''&nbsp;''))
                  @ component_word @ str '': '' @ component_defn)))"

text \<open>The classifier line of \<open>format_extra_field\<close>.\<close>

definition first_classifier :: "DictionaryEntry \<Rightarrow> EntryRef option" where
  "first_classifier entry =
     (case filter (\<lambda>defn. case classifiers defn of None \<Rightarrow> False | Some cs \<Rightarrow> length cs > 0)
             (map snd (definitions entry)) of
        [] \<Rightarrow> None
      | defn # _ \<Rightarrow> (case classifiers defn of Some (c # _) \<Rightarrow> Some c | _ \<Rightarrow> None))"

definition format_classifier :: "NoteFormatter \<Rightarrow> DictionaryEntry \<Rightarrow> error + pystr" where
  "format_classifier self entry =
     (case first_classifier entry of
        None \<Rightarrow> Inr []
      | Some classifier_ref \<Rightarrow>
         (case get_entry (fetcher self) (ref_id classifier_ref) of
            Inl e \<Rightarrow> Inl e
          | Inr classifier_entry \<Rightarrow>
             (case format_inline_word self classifier_entry of
                Inl e \<Rightarrow> Inl e
              | Inr classifier_word \<Rightarrow>
                 (case format_definition classifier_entry (ref_definition classifier_ref) of
                    Inl e \<Rightarrow> Inl e
                  | Inr classifier_defn \<Rightarrow>
                     Inr (str ''Classifier: '' @ classifier_word @
                          (if startswith classifier_defn (str ''['') then str '' '' @ classifier_defn
                           else str '' - '' @ classifier_defn))))))"

definition format_extra_field ::
    "nat \<Rightarrow> NoteFormatter \<Rightarrow> DictionaryEntry \<Rightarrow> (error + pystr) option" where
  "format_extra_field n self entry =
     (case build_components n (fetcher self) entry None of
        None \<Rightarrow> None
      | Some (comps, vis, Some e) \<Rightarrow> Some (Inl e)
      | Some (comps, vis, None) \<Rightarrow>
         Some (case format_classifier self entry of
                 Inl e \<Rightarrow> Inl e
               | Inr classifier_str \<Rightarrow>
                  (case map_result (format_component self) comps of
                     Inl e \<Rightarrow> Inl e
                   | Inr strs \<Rightarrow>
                      Inr (join_nonempty_strings [classifier_str, join (str ''<br>'') strs]
                             (str ''<br><br>'')))))"

definition ref_to_entry :: "NoteFormatter \<Rightarrow> EntryRef \<Rightarrow> error + (EntryRef \<times> DictionaryEntry)" where
  "ref_to_entry self ref =
     (case get_entry (fetcher self) (ref_id ref) of
        Inl e \<Rightarrow> Inl e
      | Inr entry \<Rightarrow>
         (let new_ref = \<lparr>ref_id = entry_id entry, ref_definition = ref_definition ref\<rparr>
          in case ref_definition ref of
               None \<Rightarrow> Inr (new_ref, entry)
             | Some d \<Rightarrow>
                (case map_of (definitions entry) d of
                   None \<Rightarrow> Inl EntryNotFound
                 | Some defn \<Rightarrow>
                    if super_entry defn = None
                    then Inr (new_ref,
                              entry\<lparr>definitions := filter (\<lambda>(i, defn). i = d) (definitions entry)\<rparr>)
                    else (case get_super_entry (fetcher self) entry d of
                            Inl e \<Rightarrow> Inl e
                          | Inr new_entry \<Rightarrow> Inr (new_ref, new_entry)))))"

definition entry_to_note ::
    "nat \<Rightarrow> NoteFormatter \<Rightarrow> EntryRef \<Rightarrow> ((error + WordNote) \<times> NoteFormatter) option" where
  "entry_to_note n self ref =
     (case ref_to_entry self ref of
        Inl e \<Rightarrow> Some (Inl e, self)
      | Inr (real_ref, entry) \<Rightarrow>
         (case format_word_field (self\<lparr>media := []\<rparr>) entry of
            (Inl e, self') \<Rightarrow> Some (Inl e, self')
          | (Inr word_str, self') \<Rightarrow>
             (case format_definition_field entry of
                Inl e \<Rightarrow> Some (Inl e, self')
              | Inr definition_str \<Rightarrow>
                 (case format_extra_field n self' entry of
                    None \<Rightarrow> None
                  | Some (Inl e) \<Rightarrow> Some (Inl e, self')
                  | Some (Inr extra_str) \<Rightarrow>
                     Some (Inr \<lparr>note_ref = real_ref, word = word_str,
                                note_definition = definition_str, word_extra = extra_str,
                                word_media = media self'\<rparr>,
                           self'\<lparr>media := []\<rparr>)))))"


section \<open>Reference codec\<close>

text \<open>
  The reference grammar (\<open>parse_any_ref\<close>, \<open>ref_to_string\<close>) is an external
  collaborator, and \<open>str.isupper\<close> and \<open>str.capitalize\<close> read the Unicode tables:
  all four are parameters of the model.
\<close>

record Externals =
  parse_any_ref :: "Fetcher \<Rightarrow> pystr \<Rightarrow> error + EntryRef list"
  ref_to_string :: "EntryRef \<Rightarrow> pystr"
  isupper :: "nat \<Rightarrow> bool"
  capitalize :: "pystr \<Rightarrow> pystr"

record InlineRef =
  iref :: EntryRef
  capitalized :: bool


text \<open>
  A match of \<open>_INLINE_REF_REGEX\<close> at the head of a text: \<open>whole\<close> is \<open>m[0]\<close>,
  \<open>bang\<close> says that the group \<open>capitalized\<close> took part, \<open>contents\<close> is the group of
  that name, \<open>remainder\<close> the text after the match. The pattern is two \<open>[\<close> (code 91),
  an optional \<open>!\<close> (33), the longest run of characters other than \<open>]\<close> (93), and two
  \<open>]\<close>. The run cannot be shortened, since a shorter one is followed by a character that
  is not \<open>]\<close>; and giving the \<open>!\<close> back to the run leaves its end where it was, so
  backtracking finds no match where this attempt finds none.
\<close>

record ref_match =
  whole :: pystr
  bang :: bool
  contents :: pystr
  remainder :: pystr

definition match_inline_ref :: "pystr \<Rightarrow> ref_match option" where
  "match_inline_ref text =
     (case text of
        a # b # rest \<Rightarrow>
          if a = 91 \<and> b = 91 then
            (let has_bang = (case rest of [] \<Rightarrow> False | c # _ \<Rightarrow> c = 33);
                 body = (if has_bang then tl rest else rest);
                 run = takeWhile (\<lambda>c. c \<noteq> 93) body
             in case dropWhile (\<lambda>c. c \<noteq> 93) body of
                  x # y # after \<Rightarrow>
                    if y = 93 then
                      Some \<lparr>whole = [91, 91] @ (if has_bang then [33] else []) @ run @ [93, 93],
                            bang = has_bang, contents = run, remainder = after\<rparr>
                    else None
                | _ \<Rightarrow> None)
          else None
      | _ \<Rightarrow> None)"

text \<open>The inner function \<open>apply\<close> of \<open>replace_inline_refs\<close>, threading the callback's state.\<close>

definition apply_match ::
    "Externals \<Rightarrow> Fetcher \<Rightarrow> (InlineRef \<Rightarrow> 's \<Rightarrow> (error + pystr) \<times> 's) \<Rightarrow> ref_match \<Rightarrow> 's
     \<Rightarrow> (error + pystr) \<times> 's" where
  "apply_match X F callback m st =
     (case parse_any_ref X F (contents m) of
        Inl e \<Rightarrow> (Inl e, st)
      | Inr [] \<Rightarrow> (Inr (whole m), st)
      | Inr (r # _) \<Rightarrow>
         (case contents m of
            [] \<Rightarrow> (Inl IndexError, st)
          | c # _ \<Rightarrow> callback \<lparr>iref = r, capitalized = (bang m \<or> isupper X c)\<rparr> st))"

text \<open>
  \<open>_INLINE_REF_REGEX.sub(apply, inline_refs)\<close>: scan from the left; where the pattern
  matches, substitute and go on after the match, otherwise copy one character.
\<close>

function replace_inline_refs ::
    "Externals \<Rightarrow> Fetcher \<Rightarrow> (InlineRef \<Rightarrow> 's \<Rightarrow> (error + pystr) \<times> 's) \<Rightarrow> pystr \<Rightarrow> 's
     \<Rightarrow> (error + pystr) \<times> 's" where
  "replace_inline_refs X F callback [] st = (Inr [], st)"
| "replace_inline_refs X F callback (c # cs) st =
     (case match_inline_ref (c # cs) of
        None \<Rightarrow>
          (case replace_inline_refs X F callback cs st of
             (Inl e, st') \<Rightarrow> (Inl e, st')
           | (Inr out, st') \<Rightarrow> (Inr (c # out), st'))
      | Some m \<Rightarrow>
          (case apply_match X F callback m st of
             (Inl e, st') \<Rightarrow> (Inl e, st')
           | (Inr s, st') \<Rightarrow>
              (case replace_inline_refs X F callback (remainder m) st' of
                 (Inl e, st'') \<Rightarrow> (Inl e, st'')
               | (Inr out, st'') \<Rightarrow> (Inr (s @ out), st''))))"
  by pat_completeness auto
termination
proof (relation "measure (\<lambda>(X, F, callback, text, st). length text)")
  fix c :: nat and cs :: pystr and m :: ref_match
  assume m: "match_inline_ref (c # cs) = Some m"
  have key: "length after < length body"
    if "dropWhile (\<lambda>c. c \<noteq> 93) body = x # y # after" for body :: pystr and x y after
    using length_dropWhile_le[of "\<lambda>c. c \<noteq> 93" body] that by simp
  from m have "length (remainder m) < length (c # cs)"
    by (auto simp: match_inline_ref_def Let_def split: list.splits if_splits dest: key)
  then show "\<And>X F callback st st'.
      ((X :: Externals, F :: Fetcher, callback :: InlineRef \<Rightarrow> 's \<Rightarrow> (error + pystr) \<times> 's,
        remainder m, st' :: 's), (X, F, callback, c # cs, st)) \<in>
      measure (\<lambda>(X, F, callback, text, st). length text)"
    by simp
qed auto

text \<open>
  The positions of that scan. \<open>reach X F callback inp st out rest st'\<close> says that the
  scan of \<open>inp\<close>, started with the callback's state \<open>st\<close>, comes to stand before the
  suffix \<open>rest\<close> of \<open>inp\<close>, with \<open>out\<close> written so far and the callback's state
  \<open>st'\<close>: it starts before the whole text, steps over one character where the pattern
  does not match, and over a match that \<open>apply\<close> has replaced without raising.
\<close>

inductive reach ::
    "Externals \<Rightarrow> Fetcher \<Rightarrow> (InlineRef \<Rightarrow> 's \<Rightarrow> (error + pystr) \<times> 's) \<Rightarrow> pystr \<Rightarrow> 's
     \<Rightarrow> pystr \<Rightarrow> pystr \<Rightarrow> 's \<Rightarrow> bool"
  for X F callback inp st
where
  reach_start: "reach X F callback inp st [] inp st"
| reach_copy:
    "reach X F callback inp st out (c # cs) st' \<Longrightarrow> match_inline_ref (c # cs) = None \<Longrightarrow>
     reach X F callback inp st (out @ [c]) cs st'"
| reach_match:
    "reach X F callback inp st out rest st' \<Longrightarrow> match_inline_ref rest = Some m \<Longrightarrow>
     apply_match X F callback m st' = (Inr s, st'') \<Longrightarrow>
     reach X F callback inp st (out @ s) (remainder m) st''"

code_pred reach .

section \<open>Cloze notes\<close>


definition emit_pronounciations ::
    "Externals \<Rightarrow> NoteFormatter \<Rightarrow> InlineRef \<Rightarrow> unit \<Rightarrow> (error + pystr) \<times> unit" where
  "emit_pronounciations X self inline_ref u =
     (case ref_to_entry self (iref inline_ref) of
        Inl e \<Rightarrow> (Inl e, u)
      | Inr (real_ref, entry) \<Rightarrow>
         (case format_pronounciation self entry of
            Inl e \<Rightarrow> (Inl e, u)
          | Inr w \<Rightarrow> (Inr (if capitalized inline_ref then capitalize X w else w), u)))"




section \<open>Concrete dictionaries\<close>

text \<open>
  An in-memory fetcher over a finite dictionary, with no merged entries, and a grammar
  given by its parser, for the scenarios below.
\<close>

definition dict_fetcher :: "(EntryId, DictionaryEntry) dict \<Rightarrow> Fetcher" where
  "dict_fetcher d =
     \<lparr>get_entry = (\<lambda>i. case map_of d i of None \<Rightarrow> Inl EntryNotFound | Some e \<Rightarrow> Inr e),
      get_super_entry = (\<lambda>e defn. Inl EntryNotFound)\<rparr>"

definition grammar :: "(pystr \<Rightarrow> EntryRef list) \<Rightarrow> Externals" where
  "grammar parse =
     \<lparr>parse_any_ref = (\<lambda>F s. Inr (parse s)),
      ref_to_string = (\<lambda>r. []),
      isupper = (\<lambda>c. 65 \<le> c \<and> c \<le> 90),
      capitalize = (\<lambda>s. s)\<rparr>"

definition plain_definition :: "pystr \<Rightarrow> component_ref list option \<Rightarrow> EntryDefinition" where
  "plain_definition text comps =
     \<lparr>definition_text = text, categories = [], super_entry = None, components = comps,
      classifiers = None, image_url = None\<rparr>"

definition word_entry ::
    "EntryId \<Rightarrow> pystr \<Rightarrow> pystr \<Rightarrow> (DefinitionId, EntryDefinition) dict \<Rightarrow> DictionaryEntry" where
  "word_entry i text pron defs =
     \<lparr>entry_id = i, entry_text = text, pronounciations = [(str ''Paiboon'', pron)],
      sound_url = None, definitions = defs, first_definition = 0\<rparr>"

definition to :: "EntryId \<Rightarrow> component_ref" where
  "to i = Ref \<lparr>ref_id = i, ref_definition = None\<rparr>"

text \<open>A cycle: entry 1 is made of entry 2, entry 2 of entry 1.\<close>

definition cyc_a :: DictionaryEntry where
  "cyc_a = word_entry 1 (str ''a'') (str ''a'') [(0, plain_definition (str ''A'') (Some [to 2]))]"

definition cyc_b :: DictionaryEntry where
  "cyc_b = word_entry 2 (str ''b'') (str ''b'') [(0, plain_definition (str ''B'') (Some [to 1]))]"

definition cyc_fetcher :: Fetcher where
  "cyc_fetcher = dict_fetcher [(1, cyc_a), (2, cyc_b)]"

text \<open>
  Entry 1 lists entry 2, itself and entry 3; entry 2 lists entry 1; entry 3 has no
  components.
\<close>

definition loop_1 :: DictionaryEntry where
  "loop_1 = word_entry 1 (str ''a'') (str ''a'')
     [(0, plain_definition (str ''A'') (Some [to 2, SELF_REFERENCE, to 3]))]"

definition loop_2 :: DictionaryEntry where
  "loop_2 = word_entry 2 (str ''b'') (str ''b'') [(0, plain_definition (str ''B'') (Some [to 1]))]"

definition loop_3 :: DictionaryEntry where
  "loop_3 = word_entry 3 (str ''c'') (str ''c'') [(0, plain_definition (str ''C'') None)]"

definition loop_fetcher :: Fetcher where
  "loop_fetcher = dict_fetcher [(1, loop_1), (2, loop_2), (3, loop_3)]"

text \<open>An entry made of itself alone.\<close>

definition self_entry :: DictionaryEntry where
  "self_entry = word_entry 1 (str ''a'') (str ''a'')
     [(0, plain_definition (str ''A'') (Some [SELF_REFERENCE]))]"

text \<open>
  An entry whose first definition has an empty component list and whose second lists
  entry 2.
\<close>

definition leaf_2 :: DictionaryEntry where
  "leaf_2 = word_entry 2 (str ''b'') (str ''b'') [(0, plain_definition (str ''B'') None)]"

definition two_defs :: DictionaryEntry where
  "two_defs = word_entry 1 (str ''a'') (str ''a'')
     [(0, plain_definition (str ''A'') (Some [])), (1, plain_definition (str ''A2'') (Some [to 2]))]"

definition two_defs_fetcher :: Fetcher where
  "two_defs_fetcher = dict_fetcher [(1, two_defs), (2, leaf_2)]"

text \<open>
  The entry of the simple word note: the Thai word is the code points 3609, 3657, 3635,
  and the \<open>a\<close> with an acute accent of its pronunciation is 225.
\<close>

definition water :: DictionaryEntry where
  "water = word_entry 1 [3609, 3657, 3635] [110, 225, 97, 109]
     [(0, plain_definition (str ''water'') None)]"

definition water_formatter :: NoteFormatter where
  "water_formatter = new_formatter (dict_fetcher [(1, water)]) None"



text \<open>
  A letter of the English alphabet with a recording: its only definition is in the
  excluded category.
\<close>

definition letter :: DictionaryEntry where
  "letter = (word_entry 7 (str ''b'') (str ''bee'')
     [(0, (plain_definition (str ''the letter b'') None)
            \<lparr>categories := [[str ''The English Alphabet'']]\<rparr>)])
     \<lparr>sound_url := Some (str ''mp3/b.mp3'')\<rparr>"


text \<open>A grammar that recognises nothing, and one that reads every text as entry 1.\<close>

definition no_grammar :: Externals where
  "no_grammar = grammar (\<lambda>s. [])"

definition any_grammar :: Externals where
  "any_grammar = grammar (\<lambda>s. [\<lparr>ref_id = 1, ref_definition = None\<rparr>])"

text \<open>
  What a scenario observes: the entry id, definition id and level of each component of
  a traversal with the exception that ended it; the word, definition and extra fields of
  a note that was built; the media map a call leaves in the formatter.
\<close>

definition trace :: "gen option \<Rightarrow> ((EntryId \<times> DefinitionId \<times> int) list \<times> error option) option" where
  "trace r =
     (case r of
        None \<Rightarrow> None
      | Some (out, vis, err) \<Rightarrow> Some (map (\<lambda>c. (wc_id c, wc_definition c, wc_level c)) out, err))"

definition note_fields ::
    "((error + WordNote) \<times> NoteFormatter) option \<Rightarrow> (pystr \<times> pystr \<times> pystr) option" where
  "note_fields r =
     (case r of
        Some (Inr note, self) \<Rightarrow> Some (word note, note_definition note, word_extra note)
      | _ \<Rightarrow> None)"


section \<open>The traversal terminates and repeats no pair\<close>

lemma gen_ok_mono: "gen_ok X visited g \<Longrightarrow> X \<subseteq> Y \<Longrightarrow> gen_ok Y visited g"
  by (auto simp: gen_ok_def split: prod.splits)






















lemma cycle_run:
  "trace (build_components 3 cyc_fetcher cyc_a None) = Some ([(2, 0, 0), (1, 0, 1)], None)"
  by code_simp


section \<open>Components with the enclosing entry's own id\<close>

text \<open>
  C2, as stated, fails on a cycle. The selected definition of entry 1 lists entry 2,
  a self-reference and entry 3. The traversal reaches entry 1 first as the component of
  entry 2, where its id is not the enclosing entry's: it is emitted at level 1 and
  expanded, which puts entry 3 at level 2. The self-reference of the top level then finds
  its pair visited and emits nothing.
\<close>

theorem self_reference_expanded_through_cycle:
  "trace (build_components 5 loop_fetcher loop_1 None) = Some ([(2, 0, 0), (1, 0, 1), (3, 0, 2)], None)"
  by code_simp

lemma yield_from_single:
  "yield_from ([wc], vis, None) k = emit wc (k vis)"
  by (auto simp: yield_from_def emit_def split: option.splits)

text \<open>
  C2, amended. When the loop of \<open>_build_components\<close> reaches a component whose id is
  the enclosing entry's own id (a self-reference is one), it emits nothing if the
  component's (entry, definition) pair is already visited; otherwise, the definition
  being resolved, it emits exactly one component at the current level, records the pair
  and goes on with the next component of the list: the emitted component is not
  expanded, whatever the fuel.
\<close>

theorem own_id_component_emitted_not_expanded:
  assumes "ref_id (resolve_self entry rel_component) = entry_id entry"
    and "get_entry F (entry_id entry) = Inr component"
  shows "build_loop_n n F entry (rel_component # rest) visited level =
     (if comp_ref_of (resolve_self entry rel_component) component \<in> visited
      then build_loop_n n F entry rest visited level
      else case resolve_comp_entry F component
                  (effective_definition (resolve_self entry rel_component) component) of
             Inl e \<Rightarrow> Some ([], visited, Some e)
           | Inr comp_entry \<Rightarrow>
              emit \<lparr>wc_id = entry_id component,
                    wc_definition = effective_definition (resolve_self entry rel_component) component,
                    wc_entry = comp_entry, wc_level = level\<rparr>
                (build_loop_n n F entry rest
                   (insert (comp_ref_of (resolve_self entry rel_component) component) visited) level))"
  using assms
  by (auto simp: yield_from_single yield_from_def emit_def split: sum.splits option.splits)

text \<open>An entry made of itself alone: one component, with no fuel at all.\<close>

theorem own_id_component_witness:
  "ref_id (resolve_self self_entry SELF_REFERENCE) = entry_id self_entry \<and>
   get_entry (dict_fetcher [(1, self_entry)]) (entry_id self_entry) = Inr self_entry \<and>
   trace (build_loop_n 0 (dict_fetcher [(1, self_entry)]) self_entry [SELF_REFERENCE] {} 0)
     = Some ([(1, 0, 0)], None)"
proof -
  have a: "ref_id (resolve_self self_entry SELF_REFERENCE) = entry_id self_entry"
    by (simp add: resolve_self_def)
  have b: "get_entry (dict_fetcher [(1, self_entry)]) (entry_id self_entry) = Inr self_entry"
    by (simp add: dict_fetcher_def self_entry_def word_entry_def)
  from own_id_component_emitted_not_expanded[OF a b, of 0 "[]" "{}" 0] a b show ?thesis
    by (simp add: trace_def emit_def resolve_self_def comp_ref_of_def effective_definition_def
        resolve_comp_entry_def self_entry_def word_entry_def plain_definition_def)
qed

section \<open>The definition whose components are expanded\<close>

text \<open>
  C4, as stated, fails where a definition that is not merged has an empty component
  list: \<open>_build_components\<close> tests the list for \<open>None\<close>, not for emptiness, so it
  selects the first definition of \<open>two_defs\<close>, loops over nothing and never reaches the
  second, which lists entry 2.
\<close>

theorem empty_component_list_is_selected:
  "select_comp_defn two_defs = Some (plain_definition (str ''A'') (Some [])) \<and>
   spec_select_comp_defn two_defs = Some (plain_definition (str ''A2'') (Some [to 2])) \<and>
   trace (build_components 5 two_defs_fetcher two_defs None) = Some ([], None)"
  by (simp add: select_comp_defn_def spec_select_comp_defn_def two_defs_def word_entry_def
      plain_definition_def trace_def build_components_def visited_or_new_def numeral_eq_Suc)

text \<open>
  C4, amended. \<open>_build_components\<close> selects, in stored order, the first definition
  whose component list is present (not \<open>None\<close>, possibly empty) and that is not
  merged, and loops over that list; with no such definition, and with an empty list, the
  entry contributes no components.
\<close>

theorem select_comp_defn_first_present:
  "case select_comp_defn entry of
     None \<Rightarrow>
       (\<forall>defn \<in> set (map snd (definitions entry)). components defn = None \<or> super_entry defn \<noteq> None) \<and>
       build_components_n (Suc n) F entry visited level = Some ([], visited, None)
   | Some comp_defn \<Rightarrow>
       (\<exists>before after rels.
          map snd (definitions entry) = before @ comp_defn # after \<and>
          (\<forall>defn \<in> set before. components defn = None \<or> super_entry defn \<noteq> None) \<and>
          components comp_defn = Some rels \<and> super_entry comp_defn = None \<and>
          build_components_n (Suc n) F entry visited level = build_loop_n n F entry rels visited level \<and>
          (rels = [] \<longrightarrow> build_components_n (Suc n) F entry visited level = Some ([], visited, None)))"
proof (cases "select_comp_defn entry")
  case None
  then have "filter (\<lambda>defn. components defn \<noteq> None \<and> super_entry defn = None)
               (map snd (definitions entry)) = []"
    by (simp add: select_comp_defn_def split: list.splits)
  then have "\<forall>defn \<in> set (map snd (definitions entry)). components defn = None \<or> super_entry defn \<noteq> None"
    by (auto simp: filter_empty_conv)
  with None show ?thesis by simp
next
  case (Some comp_defn)
  then obtain ys where "filter (\<lambda>defn. components defn \<noteq> None \<and> super_entry defn = None)
               (map snd (definitions entry)) = comp_defn # ys"
    by (auto simp: select_comp_defn_def split: list.splits)
  then obtain before after where split: "map snd (definitions entry) = before @ comp_defn # after"
    and before: "\<forall>u \<in> set before. \<not> (components u \<noteq> None \<and> super_entry u = None)"
    and sel: "components comp_defn \<noteq> None \<and> super_entry comp_defn = None"
    unfolding filter_eq_Cons_iff by blast
  from sel obtain rels where rels: "components comp_defn = Some rels" by auto
  from Some rels have run: "build_components_n (Suc n) F entry visited level =
      build_loop_n n F entry rels visited level" by simp
  from Some split before sel rels run show ?thesis by auto
qed

text \<open>The entry with an empty first list: selected, and nothing is emitted.\<close>

theorem select_comp_defn_witness:
  "select_comp_defn two_defs = Some (plain_definition (str ''A'') (Some [])) \<and>
   build_components_n (Suc 0) two_defs_fetcher two_defs {} 0 = Some ([], {}, None)"
proof -
  have s: "select_comp_defn two_defs = Some (plain_definition (str ''A'') (Some []))"
    by (simp add: select_comp_defn_def two_defs_def word_entry_def plain_definition_def)
  from select_comp_defn_first_present[of two_defs 0 two_defs_fetcher "{}" 0] s show ?thesis
    by (auto simp: plain_definition_def)
qed


section \<open>Entity resolver\<close>

lemma map_of_filter_key:
  "map_of (filter (\<lambda>(i, x). i = d) xs) k = (if k = d then map_of xs d else None)"
  by (induction xs) auto

lemma filter_key_distinct:
  "distinct (map fst xs) \<Longrightarrow> map_of xs d = Some v \<Longrightarrow> filter (\<lambda>(i, x). i = d) xs = [(d, v)]"
proof (induction xs)
  case Nil
  then show ?case by simp
next
  case (Cons a xs)
  obtain i x where a: "a = (i, x)" by (cases a)
  show ?case
  proof (cases "i = d")
    case True
    with Cons.prems a have "d \<notin> fst ` set xs" and "x = v" by auto
    then have "filter (\<lambda>(i, x). i = d) xs = []"
      by (force simp: filter_empty_conv)
    with True a \<open>x = v\<close> show ?thesis by simp
  next
    case False
    with Cons a show ?thesis by simp
  qed
qed

text \<open>
  C6. For a reference that carries a definition id, on the entry the fetcher returns:
  \<open>_ref_to_entry\<close> raises \<open>EntryNotFound\<close> when the id is not a key of the entry's
  definitions; when the definition exists and is not merged, it returns the entry with
  only its \<open>definitions\<close> replaced, by a dict that maps that id to that definition and
  nothing else (the single item, for the distinct keys of a dict).
\<close>

theorem ref_to_entry_with_definition:
  assumes "get_entry (fetcher self) (ref_id ref) = Inr entry"
    and "ref_definition ref = Some d"
  shows "(map_of (definitions entry) d = None \<longrightarrow> ref_to_entry self ref = Inl EntryNotFound) \<and>
         (\<forall>defn. map_of (definitions entry) d = Some defn \<and> super_entry defn = None \<longrightarrow>
            (\<exists>defs. ref_to_entry self ref =
                      Inr (\<lparr>ref_id = entry_id entry, ref_definition = Some d\<rparr>,
                           entry\<lparr>definitions := defs\<rparr>) \<and>
                    map_of defs = [d \<mapsto> defn] \<and>
                    (distinct (map fst (definitions entry)) \<longrightarrow> defs = [(d, defn)])))"
proof (intro conjI allI impI)
  assume "map_of (definitions entry) d = None"
  with assms show "ref_to_entry self ref = Inl EntryNotFound"
    by (simp add: ref_to_entry_def)
next
  fix defn
  assume h: "map_of (definitions entry) d = Some defn \<and> super_entry defn = None"
  let ?defs = "filter (\<lambda>(i, x). i = d) (definitions entry)"
  from assms h have "ref_to_entry self ref =
      Inr (\<lparr>ref_id = entry_id entry, ref_definition = Some d\<rparr>, entry\<lparr>definitions := ?defs\<rparr>)"
    by (simp add: ref_to_entry_def)
  moreover have "map_of ?defs = [d \<mapsto> defn]"
    using h by (auto simp: map_of_filter_key fun_eq_iff)
  moreover have "distinct (map fst (definitions entry)) \<longrightarrow> ?defs = [(d, defn)]"
    using h by (auto dest: filter_key_distinct)
  ultimately show "\<exists>defs. ref_to_entry self ref =
                      Inr (\<lparr>ref_id = entry_id entry, ref_definition = Some d\<rparr>,
                           entry\<lparr>definitions := defs\<rparr>) \<and>
                    map_of defs = [d \<mapsto> defn] \<and>
                    (distinct (map fst (definitions entry)) \<longrightarrow> defs = [(d, defn)])"
    by blast
qed

text \<open>The second definition of \<open>two_defs\<close> resolves to a narrowed entry, a third does not exist.\<close>

theorem ref_to_entry_witness:
  "get_entry (fetcher (new_formatter two_defs_fetcher None)) (ref_id \<lparr>ref_id = 1, ref_definition = Some 1\<rparr>)
     = Inr two_defs \<and>
   ref_to_entry (new_formatter two_defs_fetcher None) \<lparr>ref_id = 1, ref_definition = Some 1\<rparr> =
     Inr (\<lparr>ref_id = 1, ref_definition = Some 1\<rparr>,
          two_defs\<lparr>definitions := [(1, plain_definition (str ''A2'') (Some [to 2]))]\<rparr>) \<and>
   ref_to_entry (new_formatter two_defs_fetcher None) \<lparr>ref_id = 1, ref_definition = Some 2\<rparr> =
     Inl EntryNotFound"
proof -
  let ?self = "new_formatter two_defs_fetcher None"
  have g: "get_entry (fetcher ?self) (ref_id \<lparr>ref_id = 1, ref_definition = Some d\<rparr>) = Inr two_defs" for d
    by (simp add: new_formatter_def two_defs_fetcher_def dict_fetcher_def)
  have e: "entry_id two_defs = 1" by (simp add: two_defs_def word_entry_def)
  have d: "distinct (map fst (definitions two_defs))" by (simp add: two_defs_def word_entry_def)
  have m1: "map_of (definitions two_defs) 1 = Some (plain_definition (str ''A2'') (Some [to 2]))"
    by (simp add: two_defs_def word_entry_def)
  have m2: "map_of (definitions two_defs) 2 = None"
    by (simp add: two_defs_def word_entry_def)
  have s: "super_entry (plain_definition (str ''A2'') (Some [to 2])) = None"
    by (simp add: plain_definition_def)
  from ref_to_entry_with_definition[OF g, of 1 1] m1 s d e
  have "ref_to_entry ?self \<lparr>ref_id = 1, ref_definition = Some 1\<rparr> =
     Inr (\<lparr>ref_id = 1, ref_definition = Some 1\<rparr>,
          two_defs\<lparr>definitions := [(1, plain_definition (str ''A2'') (Some [to 2]))]\<rparr>)"
    by auto
  moreover from ref_to_entry_with_definition[OF g, of 2 2] m2
  have "ref_to_entry ?self \<lparr>ref_id = 1, ref_definition = Some 2\<rparr> = Inl EntryNotFound"
    by simp
  ultimately show ?thesis using g[of 1] by simp
qed

section \<open>Suitable definitions\<close>

text \<open>
  C7. \<open>suitable_definitions\<close> returns, in stored order, exactly the ids of the
  definitions that are not merged and have no category path naming
  \<open>The English Alphabet\<close>, and raises \<open>RuntimeError\<close> ("No suitable definitions
  found") exactly when there is none.
\<close>

theorem suitable_definitions_filter:
  "let good = (\<lambda>defn. super_entry defn = None \<and>
                 str ''The English Alphabet'' \<notin> (\<Union>cat \<in> set (categories defn). set cat));
       ids = map fst (filter (\<lambda>(i, defn). good defn) (definitions entry))
   in set ids = {i. \<exists>defn. (i, defn) \<in> set (definitions entry) \<and> good defn} \<and>
      (ids = [] \<longrightarrow> suitable_definitions entry = Inl RuntimeError) \<and>
      (ids \<noteq> [] \<longrightarrow> suitable_definitions entry = Inr ids)"
proof -
  have eq: "is_suitable_definition entry defn =
      (super_entry defn = None \<and>
       str ''The English Alphabet'' \<notin> (\<Union>cat \<in> set (categories defn). set cat))" for defn
    by (auto simp: is_suitable_definition_def)
  show ?thesis
    unfolding Let_def suitable_definitions_def eq by force
qed

text \<open>The letter has no suitable definition, the word for water has one.\<close>

theorem suitable_definitions_witness:
  "suitable_definitions letter = Inl RuntimeError \<and> suitable_definitions water = Inr [0]"
proof -
  from suitable_definitions_filter[of letter]
  have "suitable_definitions letter = Inl RuntimeError"
    by (simp add: letter_def word_entry_def plain_definition_def)
  moreover from suitable_definitions_filter[of water]
  have "suitable_definitions water = Inr [0]"
    by (simp add: water_def word_entry_def plain_definition_def str_def)
  ultimately show ?thesis by simp
qed

section \<open>Media registry\<close>






section \<open>Reference codec: occurrences\<close>

lemma dropWhile_bracket_split:
  assumes "dropWhile (\<lambda>c. c \<noteq> 93) xs = x # y # after"
  shows "xs = takeWhile (\<lambda>c. c \<noteq> (93::nat)) xs @ 93 # y # after"
proof -
  have "\<not> hd (dropWhile (\<lambda>c. c \<noteq> 93) xs) \<noteq> (93::nat)"
    by (rule hd_dropWhile) (use assms in simp)
  with assms have "x = 93" by simp
  with assms takeWhile_dropWhile_id[of "\<lambda>c. c \<noteq> 93" xs] show ?thesis by simp
qed

lemma match_inline_ref_splits:
  assumes "match_inline_ref inp = Some m"
  shows "inp = whole m @ remainder m \<and> inp \<noteq> []"
  using assms
  by (auto simp: match_inline_ref_def Let_def split: list.splits if_splits
      intro: dropWhile_bracket_split)

lemma replace_inline_refs_at_match:
  assumes "match_inline_ref inp = Some m"
  shows "replace_inline_refs X F callback inp st =
     (case apply_match X F callback m st of
        (Inl e, st') \<Rightarrow> (Inl e, st')
      | (Inr s, st') \<Rightarrow>
         (case replace_inline_refs X F callback (remainder m) st' of
            (Inl e, st'') \<Rightarrow> (Inl e, st'')
          | (Inr out, st'') \<Rightarrow> (Inr (s @ out), st'')))"
proof -
  from match_inline_ref_splits[OF assms] have "inp \<noteq> []" by (rule conjunct2)
  then obtain c cs where "inp = c # cs" by (cases inp) auto
  with assms show ?thesis by simp
qed

lemma reach_replace:
  assumes "reach X F callback inp st out rest st'"
  shows "replace_inline_refs X F callback inp st =
     (case replace_inline_refs X F callback rest st' of
        (Inl e, s) \<Rightarrow> (Inl e, s)
      | (Inr x, s) \<Rightarrow> (Inr (out @ x), s))"
  using assms
proof (induction rule: reach.induct)
  case reach_start
  show ?case by (cases "replace_inline_refs X F callback inp st") (auto split: sum.splits)
next
  case (reach_copy out c cs st')
  then show ?case
    by (cases "replace_inline_refs X F callback cs st'") (auto split: sum.splits)
next
  case (reach_match out rest st' m s st'')
  from replace_inline_refs_at_match[OF reach_match.hyps(2), of X F callback st'] reach_match.hyps(3)
  have "replace_inline_refs X F callback rest st' =
     (case replace_inline_refs X F callback (remainder m) st'' of
            (Inl e, t) \<Rightarrow> (Inl e, t)
          | (Inr x, t) \<Rightarrow> (Inr (s @ x), t))"
    by simp
  with reach_match.IH show ?case
    by (cases "replace_inline_refs X F callback (remainder m) st''") (auto split: sum.splits)
qed

lemma reach_suffix:
  "reach X F callback inp st out rest st' \<Longrightarrow> \<exists>before. inp = before @ rest"
proof (induction rule: reach.induct)
  case reach_start
  show ?case by simp
next
  case (reach_copy out c cs st')
  then obtain before where "inp = before @ c # cs" by blast
  then have "inp = (before @ [c]) @ cs" by simp
  then show ?case by blast
next
  case (reach_match out rest st' m s st'')
  then obtain before where "inp = before @ rest" by blast
  with match_inline_ref_splits[OF reach_match.hyps(2)]
  have "inp = (before @ whole m) @ remainder m" by simp
  then show ?case by blast
qed

lemma reach_trans:
  assumes "reach X F callback inp st out rest st'"
    and "reach X F callback rest st' out2 rest2 st2"
  shows "reach X F callback inp st (out @ out2) rest2 st2"
  using assms(2)
proof (induction rule: reach.induct)
  case reach_start
  from assms(1) show ?case by simp
next
  case (reach_copy out2 c cs st2)
  from reach.reach_copy[OF reach_copy.IH reach_copy.hyps(2)] show ?case by simp
next
  case (reach_match out2 rest2 st2 m s st3)
  from reach.reach_match[OF reach_match.IH reach_match.hyps(2,3)] show ?case by simp
qed

lemma reach_end:
  "replace_inline_refs X F callback inp st = (Inr res, st') \<Longrightarrow>
   reach X F callback inp st res [] st'"
proof (induction X F callback inp st arbitrary: res st' rule: replace_inline_refs.induct)
  case (1 X F callback st)
  then show ?case by (auto intro: reach_start)
next
  case (2 X F callback c cs st)
  show ?case
  proof (cases "match_inline_ref (c # cs)")
    case None
    with "2.prems" obtain out where r: "replace_inline_refs X F callback cs st = (Inr out, st')"
      and res: "res = c # out"
      by (auto split: prod.splits sum.splits)
    have "reach X F callback (c # cs) st ([] @ [c]) cs st"
      by (rule reach_copy[OF reach_start None])
    from reach_trans[OF this "2.IH"(1)[OF None r]] res show ?thesis by simp
  next
    case (Some m)
    with "2.prems" obtain s st1 out where a: "apply_match X F callback m st = (Inr s, st1)"
      and r: "replace_inline_refs X F callback (remainder m) st1 = (Inr out, st')"
      and res: "res = s @ out"
      by (auto split: prod.splits sum.splits)
    have "reach X F callback (c # cs) st ([] @ s) (remainder m) st1"
      by (rule reach_match[OF reach_start Some a])
    from reach_trans[OF this "2.IH"(2)[OF Some a[symmetric] refl r]] res show ?thesis by simp
  qed
qed

lemma replace_inline_refs_nothing_parsed:
  "(\<And>s. parse_any_ref X F s = Inr []) \<Longrightarrow>
   replace_inline_refs X F callback inp st = (Inr inp, st)"
proof (induction X F callback inp st rule: replace_inline_refs.induct)
  case (1 X F callback st)
  show ?case by simp
next
  case (2 X F callback c cs st)
  show ?case
  proof (cases "match_inline_ref (c # cs)")
    case None
    with "2.IH"(1)[OF None "2.prems"] show ?thesis by simp
  next
    case (Some m)
    have a: "apply_match X F callback m st = (Inr (whole m), st)"
      using "2.prems" by (simp add: apply_match_def)
    from "2.IH"(2)[OF Some a[symmetric] refl "2.prems"] 
    have r: "replace_inline_refs X F callback (remainder m) st = (Inr (remainder m), st)" by simp
    from match_inline_ref_splits[OF Some] have "whole m @ remainder m = c # cs" by simp
    with Some a r show ?thesis by simp
  qed
qed

text \<open>
  C9. Wherever in a text the scan of \<open>replace_inline_refs\<close> comes to stand before an
  occurrence of the pattern whose contents the grammar parses to no candidate, the
  occurrence is copied as it is after the output written so far, the callback's state
  goes on to the rest of the text untouched, and \<open>apply\<close> returns the occurrence for
  every callback: the callback is not called. (By \<open>reach_end\<close> the positions of
  \<open>reach\<close> go to the end of every scan that raises nothing, and by
  \<open>replace_inline_refs_nothing_parsed\<close> a text is returned unchanged when the grammar
  parses nothing.)
\<close>

theorem unparsed_reference_passes_through:
  assumes "reach X F callback inp st out rest st'"
    and "match_inline_ref rest = Some m"
    and "parse_any_ref X F (contents m) = Inr []"
  shows "(\<exists>before. inp = before @ whole m @ remainder m) \<and>
         rest = whole m @ remainder m \<and>
         apply_match X F callback m st' = (Inr (whole m), st') \<and>
         reach X F callback inp st (out @ whole m) (remainder m) st' \<and>
         replace_inline_refs X F callback inp st =
           (case replace_inline_refs X F callback (remainder m) st' of
              (Inl e, s) \<Rightarrow> (Inl e, s)
            | (Inr x, s) \<Rightarrow> (Inr (out @ whole m @ x), s))"
proof -
  have a: "apply_match X F callback m st' = (Inr (whole m), st')"
    using assms(3) by (simp add: apply_match_def)
  have r: "rest = whole m @ remainder m"
    using match_inline_ref_splits[OF assms(2)] by simp
  from reach_suffix[OF assms(1)] r have b: "\<exists>before. inp = before @ whole m @ remainder m"
    by simp
  have n: "reach X F callback inp st (out @ whole m) (remainder m) st'"
    by (rule reach_match[OF assms(1,2) a])
  have e: "replace_inline_refs X F callback inp st =
           (case replace_inline_refs X F callback (remainder m) st' of
              (Inl e, s) \<Rightarrow> (Inl e, s)
            | (Inr x, s) \<Rightarrow> (Inr (out @ whole m @ x), s))"
    using reach_replace[OF n] by (simp split: prod.splits sum.splits)
  from b r a n e show ?thesis by (intro conjI)
qed

text \<open>
  C10. Wherever in a text the scan comes to stand before an occurrence with empty
  contents (\<open>[[]]\<close> or \<open>[[!]]\<close>) for which the grammar returns at least one
  candidate, \<open>contents[0]\<close> raises \<open>IndexError\<close>: \<open>replace_inline_refs\<close> fails on
  the text, with the callback's state as it was before the occurrence.
\<close>

theorem empty_reference_fails:
  assumes "reach X F callback inp st out rest st'"
    and "match_inline_ref rest = Some m"
    and "contents m = []"
    and "parse_any_ref X F [] = Inr (r # rs)"
  shows "replace_inline_refs X F callback inp st = (Inl IndexError, st')"
proof -
  have a: "apply_match X F callback m st' = (Inl IndexError, st')"
    using assms(3,4) by (simp add: apply_match_def)
  from a replace_inline_refs_at_match[OF assms(2), of X F callback st']
  have "replace_inline_refs X F callback rest st' = (Inl IndexError, st')" by simp
  with reach_replace[OF assms(1)] show ?thesis by simp
qed

text \<open>An unparsed occurrence after a first character: the text comes back unchanged.\<close>

theorem unparsed_reference_witness:
  "reach no_grammar cyc_fetcher (emit_pronounciations no_grammar water_formatter)
     (str ''x[[junk]] y'') () (str ''x'') (str ''[[junk]] y'') () \<and>
   match_inline_ref (str ''[[junk]] y'') =
     Some \<lparr>whole = str ''[[junk]]'', bang = False, contents = str ''junk'', remainder = str '' y''\<rparr> \<and>
   parse_any_ref no_grammar cyc_fetcher (str ''junk'') = Inr [] \<and>
   replace_inline_refs no_grammar cyc_fetcher (emit_pronounciations no_grammar water_formatter)
     (str ''x[[junk]] y'') () = (Inr (str ''x[[junk]] y''), ())"
proof -
  let ?cb = "emit_pronounciations no_grammar water_formatter"
  let ?m = "\<lparr>whole = str ''[[junk]]'', bang = False, contents = str ''junk'', remainder = str '' y''\<rparr>"
  have n: "match_inline_ref (str ''x[[junk]] y'') = None"
    by (simp add: match_inline_ref_def str_def)
  have "reach no_grammar cyc_fetcher ?cb (str ''x[[junk]] y'') () ([] @ [120]) (str ''[[junk]] y'') ()"
    by (rule reach_copy) (use n in \<open>simp_all add: str_def reach_start\<close>)
  then have p: "reach no_grammar cyc_fetcher ?cb (str ''x[[junk]] y'') () (str ''x'') (str ''[[junk]] y'') ()"
    by (simp add: str_def)
  have m: "match_inline_ref (str ''[[junk]] y'') = Some ?m"
    by (simp add: match_inline_ref_def str_def)
  have g: "parse_any_ref no_grammar cyc_fetcher (contents ?m) = Inr []"
    by (simp add: no_grammar_def grammar_def)
  have r: "replace_inline_refs no_grammar cyc_fetcher ?cb (str '' y'') () = (Inr (str '' y''), ())"
    by (simp add: str_def match_inline_ref_def)
  from unparsed_reference_passes_through[OF p m g] p m g r
  show ?thesis by (simp add: str_def)
qed

text \<open>
  The text \<open>x[[]]\<close> under a grammar that reads every text, the empty one too, as
  entry 1.
\<close>

theorem empty_reference_witness:
  "reach any_grammar cyc_fetcher (emit_pronounciations any_grammar water_formatter)
     (str ''x[[]]'') () (str ''x'') (str ''[[]]'') () \<and>
   match_inline_ref (str ''[[]]'') =
     Some \<lparr>whole = str ''[[]]'', bang = False, contents = [], remainder = []\<rparr> \<and>
   parse_any_ref any_grammar cyc_fetcher [] = Inr [\<lparr>ref_id = 1, ref_definition = None\<rparr>] \<and>
   replace_inline_refs any_grammar cyc_fetcher (emit_pronounciations any_grammar water_formatter)
     (str ''x[[]]'') () = (Inl IndexError, ())"
proof -
  let ?cb = "emit_pronounciations any_grammar water_formatter"
  let ?m = "\<lparr>whole = str ''[[]]'', bang = False, contents = [], remainder = []\<rparr>"
  have n: "match_inline_ref (str ''x[[]]'') = None"
    by (simp add: match_inline_ref_def str_def)
  have "reach any_grammar cyc_fetcher ?cb (str ''x[[]]'') () ([] @ [120]) (str ''[[]]'') ()"
    by (rule reach_copy) (use n in \<open>simp_all add: str_def reach_start\<close>)
  then have p: "reach any_grammar cyc_fetcher ?cb (str ''x[[]]'') () (str ''x'') (str ''[[]]'') ()"
    by (simp add: str_def)
  have m: "match_inline_ref (str ''[[]]'') = Some ?m"
    by (simp add: match_inline_ref_def str_def)
  have c: "contents ?m = []" by simp
  have g: "parse_any_ref any_grammar cyc_fetcher [] = Inr [\<lparr>ref_id = 1, ref_definition = None\<rparr>]"
    by (simp add: any_grammar_def grammar_def)
  from empty_reference_fails[OF p m c g] p m g
  show ?thesis by simp
qed

section \<open>The simple word note\<close>

text \<open>
  C5, as stated, fails: for the entry of the scenario, \<open>entry_to_note\<close> does not give
  the word field in \<open>ruby\<close> markup, which is what \<open>format_inline_word\<close> writes for
  components and classifiers.
\<close>

theorem water_word_field_is_not_ruby:
  "note_fields (entry_to_note 1 water_formatter \<lparr>ref_id = 1, ref_definition = None\<rparr>) \<noteq>
     Some (str ''<ruby>'' @ [3609, 3657, 3635] @ str ''<rt>'' @ [110, 225, 97, 109] @ str ''</rt></ruby>'',
           str ''water'', [])"
  by code_simp

text \<open>
  C5, amended. For that entry, with no audio locator, \<open>entry_to_note\<close> gives the word
  field of \<open>format_word_field\<close>, the word followed by its pronunciation in square
  brackets, the definition field \<open>water\<close> and an empty extra field.
\<close>

theorem water_note_fields:
  "note_fields (entry_to_note (Suc n) water_formatter \<lparr>ref_id = 1, ref_definition = None\<rparr>) =
     Some ([3609, 3657, 3635] @ str ''['' @ [110, 225, 97, 109] @ str '']'', str ''water'', [])"
  by (simp add: note_fields_def entry_to_note_def ref_to_entry_def water_formatter_def
      new_formatter_def dict_fetcher_def water_def word_entry_def plain_definition_def
      format_word_field_def format_pronounciation_def format_definition_field_def
      suitable_definitions_def is_suitable_definition_def format_definition_def
      format_extra_field_def build_components_def visited_or_new_def select_comp_defn_def
      format_classifier_def first_classifier_def join_nonempty_strings_def
      html_escape_def replace_char_def str_def)

section \<open>Media between note builds\<close>













end
